theory Spec2Isabelle
  imports Complex_Main "HOL-Library.AList"
begin

section \<open>Values, documents and errors\<close>

text \<open>
  A \<^verbatim>\<open>search.Document\<close> is a Go \<^verbatim>\<open>map[string]interface{}\<close>. The values that reach the
  engine are the ones \<^verbatim>\<open>encoding/json\<close> reads and writes: \<^verbatim>\<open>nil\<close>, \<^verbatim>\<open>bool\<close>,
  \<^verbatim>\<open>float64\<close>, \<^verbatim>\<open>string\<close>, \<^verbatim>\<open>[]interface{}\<close> and \<^verbatim>\<open>map[string]interface{}\<close>
  (a timestamp travels as a string). A number is the rational a finite \<^verbatim>\<open>float64\<close>
  denotes; JSON has no NaN and no infinity.

  The fields of a map are an association list with distinct keys. Go leaves the order in
  which \<^verbatim>\<open>range\<close> visits a map open: the order of the list is the order of one run, and
  a statement about every list is a statement about every order.
\<close>

datatype jvalue =
    JNull
  | JBool bool
  | JNum rat
  | JStr string
  | JArr "jvalue list"
  | JObj "(string \<times> jvalue) list"

type_synonym fields = "(string \<times> jvalue) list"

text \<open>
  A Go map is a reference. A \<^verbatim>\<open>Document\<close> is either the nil map or a reference into a
  store of maps; writing through the reference changes the store.
\<close>

datatype Document = NilMap | MapRef nat

type_synonym heap = "nat \<Rightarrow> fields"

text \<open>
  An \<^verbatim>\<open>opensearchapi.Response\<close>: the HTTP status and the body. The body is given by
  the JSON value its bytes encode; \<open>None\<close> is a body that is not JSON text.
\<close>

record Response =
  StatusCode :: int
  Body :: "jvalue option"

definition IsError :: "Response \<Rightarrow> bool" where
  "IsError resp = (StatusCode resp > 299)"

text \<open>
  Go errors. \<^verbatim>\<open>ErrDocumentNotFound\<close> and \<^verbatim>\<open>ErrDocumentMismatch\<close> are the two sentinel
  errors of the package. \<^verbatim>\<open>errors.New\<close> makes an opaque error; \<^verbatim>\<open>fmt.Errorf\<close> keeps the error it
  formats in its chain only under the verb \<^verbatim>\<open>%w\<close>. The format string is kept as the
  source writes it, followed by its arguments; \<open>Errorf_resp\<close> formats \<^verbatim>\<open>resp.String()\<close>
  and keeps the response. \<open>JSONError\<close> is an error of \<^verbatim>\<open>encoding/json\<close>.
\<close>

datatype error =
    ErrDocumentNotFound
  | ErrDocumentMismatch
  | New string
  | Errorf_v string error
  | Errorf_w string error
  | Errorf_q_w string string error
  | Errorf_resp string Response
  | Errorf_d string int
  | JSONError

text \<open>\<^verbatim>\<open>errors.Is\<close> follows the chain that \<^verbatim>\<open>%w\<close> builds.\<close>

fun errors_Is :: "error \<Rightarrow> error \<Rightarrow> bool" where
  "errors_Is (Errorf_w f e) target = (Errorf_w f e = target \<or> errors_Is e target)"
| "errors_Is (Errorf_q_w f q e) target = (Errorf_q_w f q e = target \<or> errors_Is e target)"
| "errors_Is e target = (e = target)"

text \<open>A call either returns or panics with a run-time error.\<close>

datatype 'a outcome = Return 'a | Panic string

section \<open>search/document.go\<close>

definition GenerateDocumentID :: "string \<Rightarrow> string \<Rightarrow> string \<Rightarrow> string" where
  "GenerateDocumentID instanceID entityName entityID =
     instanceID @ ''-'' @ entityName @ ''-'' @ entityID"

definition AddDocumentMetaData ::
  "heap \<Rightarrow> Document \<Rightarrow> string \<Rightarrow> string \<Rightarrow> string \<Rightarrow> (error + Document) outcome \<times> heap" where
  "AddDocumentMetaData h d instanceID entityName entityID =
     (if entityID = [] then (Return (Inl (New ''entityID is required'')), h)
      else if instanceID = [] then (Return (Inl (New ''instanceID is required'')), h)
      else if entityName = [] then (Return (Inl (New ''entityName is required'')), h)
      else (case d of
              NilMap \<Rightarrow> (Panic ''assignment to entry in nil map'', h)
            | MapRef r \<Rightarrow>
                (Return (Inr d),
                 h(r := AList.update ''entity_name'' (JStr entityName)
                          (AList.update ''instance_id'' (JStr instanceID)
                            (AList.update ''id'' (JStr entityID) (h r)))))))"


section \<open>search/search.go\<close>

record Query =
  Value :: string

record IndexOptions =
  Refresh :: bool

type_synonym IndexOption = "IndexOptions \<Rightarrow> IndexOptions"


section \<open>The cluster behind a client\<close>

text \<open>
  The requests of \<^verbatim>\<open>opensearchapi\<close> the engine sends, with the fields it fills in. A
  request body is the JSON value its bytes encode.
\<close>

datatype Request =
    IndicesExistsRequest string
  | IndicesCreateRequest string jvalue
  | IndexRequest string string jvalue string
  | GetRequest string string
  | DeleteRequest string string
  | IndicesDeleteRequest string
  | SearchRequest jvalue

text \<open>
  \<^verbatim>\<open>req.Do(ctx, client)\<close> leaves the program. A client is a handle of type \<open>'k\<close>; the
  clusters, and whatever else a request can reach, are the world \<open>'w\<close>. A backend says
  what a request sent through a client does to the world and what comes back: a
  transport error or a response. The engine is written over any backend.
\<close>

type_synonym ('k, 'w) backend = "'k \<Rightarrow> Request \<Rightarrow> 'w \<Rightarrow> (error + Response) \<times> 'w"

text \<open>
  A backend that also keeps, in order, the requests sent and the client each went through.
\<close>

definition logged :: "('k, 'w) backend \<Rightarrow> ('k, 'w \<times> ('k \<times> Request) list) backend" where
  "logged be client req wl =
     (case be client req (fst wl) of (r, w') \<Rightarrow> (r, (w', snd wl @ [(client, req)])))"

section \<open>search/opensearch/open\_search.go\<close>

record 'k OpenSearch =
  primaryClient :: 'k
  secondaryClient :: "'k option"

definition executeRequest ::
  "('k, 'w) backend \<Rightarrow> 'k \<Rightarrow> Request \<Rightarrow> 'w \<Rightarrow> error option \<times> 'w" where
  "executeRequest be client req w =
     (case be client req w of
        (Inl err, w') \<Rightarrow> (Some (Errorf_v ''error executing request: %v'' err), w')
      | (Inr resp, w') \<Rightarrow>
          (if IsError resp then (Some (Errorf_resp ''request failed: %s'' resp), w')
           else (None, w')))"

definition executeReadRequest ::
  "('k, 'w) backend \<Rightarrow> 'k \<Rightarrow> Request \<Rightarrow> 'w \<Rightarrow> (error + Response) \<times> 'w" where
  "executeReadRequest be client req w =
     (case be client req w of
        (Inl err, w') \<Rightarrow> (Inl (Errorf_v ''error executing request: %v'' err), w')
      | (Inr resp, w') \<Rightarrow> (Inr resp, w'))"

text \<open>
  \<^verbatim>\<open>decodeResponse\<close>; \<open>decode\<close> is \<^verbatim>\<open>json.NewDecoder(resp.Body).Decode(target)\<close> for the
  type of the target.
\<close>

definition decodeResponse :: "Response \<Rightarrow> (jvalue option \<Rightarrow> error + 'a) \<Rightarrow> error + 'a" where
  "decodeResponse resp decode =
     (if IsError resp then
        (if StatusCode resp = 404 then Inl ErrDocumentNotFound
         else Inl (Errorf_resp ''error in response: %s'' resp))
      else decode (Body resp))"

text \<open>
  Decoding into a field of type \<^verbatim>\<open>map[string]interface{}\<close> tagged \<^verbatim>\<open>_source\<close>: an
  absent or null member leaves the nil map, which reads as the empty map; a member that
  is no object is an error.
\<close>

definition decode_source_member :: "fields \<Rightarrow> error + fields" where
  "decode_source_member obj =
     (case map_of obj ''_source'' of
        None \<Rightarrow> Inr []
      | Some JNull \<Rightarrow> Inr []
      | Some (JObj d) \<Rightarrow> Inr d
      | Some _ \<Rightarrow> Inl JSONError)"

definition decode_Source :: "jvalue option \<Rightarrow> error + fields" where
  "decode_Source body =
     (case body of
        None \<Rightarrow> Inl JSONError
      | Some JNull \<Rightarrow> Inr []
      | Some (JObj obj) \<Rightarrow> decode_source_member obj
      | Some _ \<Rightarrow> Inl JSONError)"

definition decode_hit :: "jvalue \<Rightarrow> error + fields" where
  "decode_hit hit =
     (case hit of
        JNull \<Rightarrow> Inr []
      | JObj obj \<Rightarrow>
          (case map_of obj ''_id'' of
             None \<Rightarrow> decode_source_member obj
           | Some JNull \<Rightarrow> decode_source_member obj
           | Some (JStr i) \<Rightarrow> decode_source_member obj
           | Some _ \<Rightarrow> Inl JSONError)
      | _ \<Rightarrow> Inl JSONError)"

fun decode_hit_list :: "jvalue list \<Rightarrow> error + fields list" where
  "decode_hit_list [] = Inr []"
| "decode_hit_list (hit # hits) =
     (case decode_hit hit of
        Inl err \<Rightarrow> Inl err
      | Inr d \<Rightarrow> (case decode_hit_list hits of Inl err \<Rightarrow> Inl err | Inr ds \<Rightarrow> Inr (d # ds)))"

definition decode_inner_hits :: "fields \<Rightarrow> error + fields list" where
  "decode_inner_hits obj =
     (case map_of obj ''hits'' of
        None \<Rightarrow> Inr []
      | Some JNull \<Rightarrow> Inr []
      | Some (JArr hits) \<Rightarrow> decode_hit_list hits
      | Some _ \<Rightarrow> Inl JSONError)"

definition decode_Hits :: "jvalue option \<Rightarrow> error + fields list" where
  "decode_Hits body =
     (case body of
        None \<Rightarrow> Inl JSONError
      | Some JNull \<Rightarrow> Inr []
      | Some (JObj obj) \<Rightarrow>
          (case map_of obj ''hits'' of
             None \<Rightarrow> Inr []
           | Some JNull \<Rightarrow> Inr []
           | Some (JObj inner) \<Rightarrow> decode_inner_hits inner
           | Some _ \<Rightarrow> Inl JSONError)
      | Some _ \<Rightarrow> Inl JSONError)"

text \<open>
  \<^verbatim>\<open>json.Marshal\<close> of a document: every value of \<open>jvalue\<close> has an encoding, and the nil
  map encodes as \<^verbatim>\<open>null\<close>.
\<close>

definition json_Marshal_Document :: "heap \<Rightarrow> Document \<Rightarrow> error + jvalue" where
  "json_Marshal_Document h d = (case d of NilMap \<Rightarrow> Inr JNull | MapRef r \<Rightarrow> Inr (JObj (h r)))"

definition json_Marshal :: "jvalue \<Rightarrow> error + jvalue" where
  "json_Marshal v = Inr v"

definition strconv_FormatBool :: "bool \<Rightarrow> string" where
  "strconv_FormatBool b = (if b then ''true'' else ''false'')"

definition indexExists ::
  "('k, 'w) backend \<Rightarrow> 'k \<Rightarrow> string \<Rightarrow> 'w \<Rightarrow> (error + bool) \<times> 'w" where
  "indexExists be client indexName w =
     (case executeReadRequest be client (IndicesExistsRequest indexName) w of
        (Inl err, w') \<Rightarrow> (Inl err, w')
      | (Inr resp, w') \<Rightarrow>
          (if StatusCode resp = 200 then (Inr True, w')
           else if StatusCode resp = 404 then (Inr False, w')
           else (Inl (Errorf_d ''unexpected response status checking index exists: %d''
                        (StatusCode resp)), w')))"

definition createIndex ::
  "('k, 'w) backend \<Rightarrow> 'k \<Rightarrow> string \<Rightarrow> jvalue \<Rightarrow> 'w \<Rightarrow> error option \<times> 'w" where
  "createIndex be client indexName body w =
     executeRequest be client (IndicesCreateRequest indexName body) w"

definition ensureIndex ::
  "('k, 'w) backend \<Rightarrow> 'k \<Rightarrow> string \<Rightarrow> jvalue \<Rightarrow> 'w \<Rightarrow> error option \<times> 'w" where
  "ensureIndex be client indexName body w =
     (case indexExists be client indexName w of
        (Inl err, w') \<Rightarrow> (Some (Errorf_v ''failed to check if index exist: %v'' err), w')
      | (Inr exists, w') \<Rightarrow>
          (if \<not> exists then
             (case createIndex be client indexName body w' of
                (Some err, w'') \<Rightarrow> (Some (Errorf_v ''failed to create index: %v'' err), w'')
              | (None, w'') \<Rightarrow> (None, w''))
           else (None, w')))"

definition putDocument ::
  "('k, 'w) backend \<Rightarrow> 'k \<Rightarrow> string \<Rightarrow> string \<Rightarrow> jvalue \<Rightarrow> string \<Rightarrow> 'w
     \<Rightarrow> error option \<times> 'w" where
  "putDocument be client indexName documentID body refresh w =
     executeRequest be client (IndexRequest indexName documentID body refresh) w"

definition findDocument ::
  "('k, 'w) backend \<Rightarrow> 'k \<Rightarrow> string \<Rightarrow> string \<Rightarrow> 'w \<Rightarrow> (error + fields) \<times> 'w" where
  "findDocument be client indexName documentID w =
     (case executeReadRequest be client (GetRequest indexName documentID) w of
        (Inl err, w') \<Rightarrow> (Inl err, w')
      | (Inr resp, w') \<Rightarrow>
          (case decodeResponse resp decode_Source of
             Inl err \<Rightarrow> (Inl err, w')
           | Inr source \<Rightarrow> (Inr source, w')))"

definition deleteDocument ::
  "('k, 'w) backend \<Rightarrow> 'k \<Rightarrow> string \<Rightarrow> string \<Rightarrow> 'w \<Rightarrow> error option \<times> 'w" where
  "deleteDocument be client indexName documentID w =
     executeRequest be client (DeleteRequest indexName documentID) w"

definition deleteIndex ::
  "('k, 'w) backend \<Rightarrow> 'k \<Rightarrow> string \<Rightarrow> 'w \<Rightarrow> error option \<times> 'w" where
  "deleteIndex be client indexName w =
     executeRequest be client (IndicesDeleteRequest indexName) w"

text \<open>
  \<^verbatim>\<open>value1 != value2\<close> on two \<^verbatim>\<open>interface{}\<close> values: values of different dynamic types
  differ; values of the same comparable type are compared; values of the same type that
  is not comparable (a slice, a map) make the comparison panic.
\<close>

fun interface_ne :: "jvalue \<Rightarrow> jvalue \<Rightarrow> bool outcome" where
  "interface_ne JNull JNull = Return False"
| "interface_ne (JBool a) (JBool b) = Return (a \<noteq> b)"
| "interface_ne (JNum a) (JNum b) = Return (a \<noteq> b)"
| "interface_ne (JStr a) (JStr b) = Return (a \<noteq> b)"
| "interface_ne (JArr a) (JArr b) =
     Panic ''runtime error: comparing uncomparable type []interface {}''"
| "interface_ne (JObj a) (JObj b) =
     Panic ''runtime error: comparing uncomparable type map[string]interface {}''"
| "interface_ne v w = Return True"

fun compareDocuments_range :: "fields \<Rightarrow> fields \<Rightarrow> bool outcome" where
  "compareDocuments_range [] doc2 = Return True"
| "compareDocuments_range ((key, value1) # rest) doc2 =
     (case map_of doc2 key of
        Some value2 \<Rightarrow>
          (case interface_ne value1 value2 of
             Panic m \<Rightarrow> Panic m
           | Return True \<Rightarrow> Return False
           | Return False \<Rightarrow> compareDocuments_range rest doc2)
      | None \<Rightarrow> Return False)"

definition compareDocuments :: "fields \<Rightarrow> fields \<Rightarrow> bool outcome" where
  "compareDocuments doc1 doc2 =
     (if length doc1 \<noteq> length doc2 then Return False
      else compareDocuments_range doc1 doc2)"

definition constructSearchQuery :: "string \<Rightarrow> Query \<Rightarrow> jvalue" where
  "constructSearchQuery instanceID query =
     JObj [(''query'', JObj [(''bool'', JObj [
        (''must'', JObj [(''query_string'', JObj [(''query'', JStr (Value query))])]),
        (''filter'', JObj [(''term'', JObj [(''instance_id'', JStr instanceID)])])])])]"

definition extractDocumentsFromSearchResponse :: "Response \<Rightarrow> error + fields list" where
  "extractDocumentsFromSearchResponse resp =
     (case decodeResponse resp decode_Hits of
        Inl err \<Rightarrow> Inl err
      | Inr hits \<Rightarrow> Inr (foldl (\<lambda>documents hit. documents @ [hit]) [] hits))"

definition CreateIndex ::
  "('k, 'w) backend \<Rightarrow> 'k OpenSearch \<Rightarrow> string \<Rightarrow> jvalue \<Rightarrow> 'w \<Rightarrow> error option \<times> 'w" where
  "CreateIndex be os indexName config w =
     (case json_Marshal config of
        Inl err \<Rightarrow> (Some (Errorf_v ''failed to marshal index config %v'' err), w)
      | Inr configByte \<Rightarrow>
          (case ensureIndex be (primaryClient os) indexName configByte w of
             (Some err, w') \<Rightarrow> (Some (Errorf_v ''primary client: %v'' err), w')
           | (None, w') \<Rightarrow>
               (case secondaryClient os of
                  None \<Rightarrow> (None, w')
                | Some secondary \<Rightarrow>
                    (case ensureIndex be secondary indexName configByte w' of
                       (Some err, w'') \<Rightarrow> (Some (Errorf_v ''secondary client: %v'' err), w'')
                     | (None, w'') \<Rightarrow> (None, w'')))))"

definition PutDocument ::
  "('k, 'w) backend \<Rightarrow> 'k OpenSearch \<Rightarrow> string \<Rightarrow> string \<Rightarrow> string \<Rightarrow> string \<Rightarrow> Document
     \<Rightarrow> IndexOption list \<Rightarrow> 'w \<Rightarrow> heap \<Rightarrow> error option outcome \<times> 'w \<times> heap" where
  "PutDocument be os instanceID indexName entityName entityID document opts w h =
     (case AddDocumentMetaData h document instanceID entityName entityID of
        (Panic m, h') \<Rightarrow> (Panic m, w, h')
      | (Return (Inl err), h') \<Rightarrow>
          (Return (Some (Errorf_v ''missing document meta data %v'' err)), w, h')
      | (Return (Inr d), h') \<Rightarrow>
          (case json_Marshal_Document h' d of
             Inl err \<Rightarrow> (Return (Some (Errorf_v ''failed to marshal document %v'' err)), w, h')
           | Inr docByte \<Rightarrow>
               (let documentID = GenerateDocumentID instanceID entityName entityID;
                    options = foldl (\<lambda>options opt. opt options) \<lparr>Refresh = False\<rparr> opts;
                    refresh = strconv_FormatBool (Refresh options)
                in case putDocument be (primaryClient os) indexName documentID docByte refresh w of
                     (Some err, w') \<Rightarrow>
                       (Return (Some (Errorf_v ''primary client: %v'' err)), w', h')
                   | (None, w') \<Rightarrow>
                       (case secondaryClient os of
                          None \<Rightarrow> (Return None, w', h')
                        | Some secondary \<Rightarrow>
                            (case putDocument be secondary indexName documentID docByte refresh w' of
                               (Some err, w'') \<Rightarrow>
                                 (Return (Some (Errorf_v ''secondary client: %v'' err)), w'', h')
                             | (None, w'') \<Rightarrow> (Return None, w'', h'))))))"

definition FindDocument ::
  "('k, 'w) backend \<Rightarrow> 'k OpenSearch \<Rightarrow> string \<Rightarrow> string \<Rightarrow> string \<Rightarrow> string \<Rightarrow> 'w
     \<Rightarrow> (error + fields) outcome \<times> 'w" where
  "FindDocument be os instanceID indexName entityName entityID w =
     (let documentID = GenerateDocumentID instanceID entityName entityID
      in case findDocument be (primaryClient os) indexName documentID w of
           (Inl err, w') \<Rightarrow> (Return (Inl (Errorf_w ''primary client: %w'' err)), w')
         | (Inr pryDoc, w') \<Rightarrow>
             (case secondaryClient os of
                None \<Rightarrow> (Return (Inr pryDoc), w')
              | Some secondary \<Rightarrow>
                  (case findDocument be secondary indexName documentID w' of
                     (Inl err, w'') \<Rightarrow>
                       (Return (Inl (Errorf_w ''secondary client: %w'' err)), w'')
                   | (Inr secDoc, w'') \<Rightarrow>
                       (case compareDocuments pryDoc secDoc of
                          Panic m \<Rightarrow> (Panic m, w'')
                        | Return False \<Rightarrow>
                            (Return (Inl (Errorf_q_w ''documents mismatch for id %q: %w''
                                            entityID ErrDocumentMismatch)), w'')
                        | Return True \<Rightarrow> (Return (Inr pryDoc), w'')))))"

definition DeleteDocument ::
  "('k, 'w) backend \<Rightarrow> 'k OpenSearch \<Rightarrow> string \<Rightarrow> string \<Rightarrow> string \<Rightarrow> string \<Rightarrow> 'w
     \<Rightarrow> error option \<times> 'w" where
  "DeleteDocument be os instanceID indexName entityName entityID w =
     (let documentID = GenerateDocumentID instanceID entityName entityID
      in case deleteDocument be (primaryClient os) indexName documentID w of
           (Some err, w') \<Rightarrow> (Some (Errorf_v ''primary client: %v'' err), w')
         | (None, w') \<Rightarrow>
             (case secondaryClient os of
                None \<Rightarrow> (None, w')
              | Some secondary \<Rightarrow>
                  (case deleteDocument be secondary indexName documentID w' of
                     (Some err, w'') \<Rightarrow> (Some (Errorf_v ''secondary client: %v'' err), w'')
                   | (None, w'') \<Rightarrow> (None, w''))))"

definition DeleteIndex ::
  "('k, 'w) backend \<Rightarrow> 'k OpenSearch \<Rightarrow> string \<Rightarrow> 'w \<Rightarrow> error option \<times> 'w" where
  "DeleteIndex be os indexName w =
     (case deleteIndex be (primaryClient os) indexName w of
        (Some err, w') \<Rightarrow> (Some (Errorf_v ''primary client: %v'' err), w')
      | (None, w') \<Rightarrow>
          (case secondaryClient os of
             None \<Rightarrow> (None, w')
           | Some secondary \<Rightarrow>
               (case deleteIndex be secondary indexName w' of
                  (Some err, w'') \<Rightarrow> (Some (Errorf_v ''secondary client: %v'' err), w'')
                | (None, w'') \<Rightarrow> (None, w''))))"

definition Search ::
  "('k, 'w) backend \<Rightarrow> 'k OpenSearch \<Rightarrow> string \<Rightarrow> Query \<Rightarrow> 'w \<Rightarrow> (error + fields list) \<times> 'w" where
  "Search be os instanceID query w =
     (let searchQuery = constructSearchQuery instanceID query
      in case json_Marshal searchQuery of
           Inl err \<Rightarrow> (Inl (Errorf_v ''failed to marshal search query: %v'' err), w)
         | Inr q \<Rightarrow>
             (case executeReadRequest be (primaryClient os) (SearchRequest q) w of
                (Inl err, w') \<Rightarrow> (Inl err, w')
              | (Inr resp, w') \<Rightarrow> (extractDocumentsFromSearchResponse resp, w')))"

section \<open>A reference cluster\<close>

text \<open>
  The cluster is not part of the repository. Where a statement needs more than "some
  backend", this is the backend it is about, after the document API of OpenSearch: an
  index is a list of documents under their ids; indexing stores the body under the id and
  creates the index when it is missing; a get answers 200 with the stored body as
  \<^verbatim>\<open>_source\<close>, or 404; deleting what is not there answers 404; a search answers with the
  documents of every index that pass the \<^verbatim>\<open>term\<close> filter of the query (the field holds
  exactly the value, as for a \<^verbatim>\<open>keyword\<close> field) and that the query string matches.
  What a query string matches is left to the parameter \<open>matches\<close>. A cluster that is not
  reachable answers every request with a transport error.
\<close>

record cluster =
  reachable :: bool
  indices :: "(string \<times> (string \<times> fields) list) list"

fun lookup_path :: "string list \<Rightarrow> jvalue \<Rightarrow> jvalue option" where
  "lookup_path [] v = Some v"
| "lookup_path (k # ks) (JObj obj) =
     (case map_of obj k of None \<Rightarrow> None | Some v \<Rightarrow> lookup_path ks v)"
| "lookup_path (k # ks) v = None"

definition index_docs :: "cluster \<Rightarrow> string \<Rightarrow> (string \<times> fields) list" where
  "index_docs c i = (case map_of (indices c) i of None \<Rightarrow> [] | Some docs \<Rightarrow> docs)"

definition term_filter_ok :: "jvalue \<Rightarrow> fields \<Rightarrow> bool" where
  "term_filter_ok q d =
     (case lookup_path [''query'', ''bool'', ''filter'', ''term''] q of
        Some (JObj [(field, v)]) \<Rightarrow> map_of d field = Some v
      | Some other \<Rightarrow> False
      | None \<Rightarrow> True)"

definition query_string_ok :: "(string \<Rightarrow> fields \<Rightarrow> bool) \<Rightarrow> jvalue \<Rightarrow> fields \<Rightarrow> bool" where
  "query_string_ok matches q d =
     (case lookup_path [''query'', ''bool'', ''must'', ''query_string'', ''query''] q of
        Some (JStr text) \<Rightarrow> matches text d
      | Some other \<Rightarrow> False
      | None \<Rightarrow> True)"

definition search_hits :: "(string \<Rightarrow> fields \<Rightarrow> bool) \<Rightarrow> jvalue \<Rightarrow> cluster \<Rightarrow> (string \<times> fields) list" where
  "search_hits matches q c =
     filter (\<lambda>(k, d). term_filter_ok q d \<and> query_string_ok matches q d)
       (concat (map snd (indices c)))"

definition hit_json :: "string \<times> fields \<Rightarrow> jvalue" where
  "hit_json kd = JObj [(''_id'', JStr (fst kd)), (''_source'', JObj (snd kd))]"

definition cluster_Do ::
  "(string \<Rightarrow> fields \<Rightarrow> bool) \<Rightarrow> Request \<Rightarrow> cluster \<Rightarrow> (error + Response) \<times> cluster" where
  "cluster_Do matches req c =
     (if \<not> reachable c then (Inl (New ''connection refused''), c)
      else (case req of
        IndicesExistsRequest i \<Rightarrow>
          (Inr \<lparr>StatusCode = (if map_of (indices c) i = None then 404 else 200), Body = None\<rparr>, c)
      | IndicesCreateRequest i body \<Rightarrow>
          (if map_of (indices c) i = None then
             (Inr \<lparr>StatusCode = 200, Body = Some (JObj [(''acknowledged'', JBool True)])\<rparr>,
              c\<lparr>indices := AList.update i [] (indices c)\<rparr>)
           else (Inr \<lparr>StatusCode = 400, Body = Some (JObj [(''status'', JNum 400)])\<rparr>, c))
      | IndexRequest i k body refresh \<Rightarrow>
          (case body of
             JObj d \<Rightarrow>
               (Inr \<lparr>StatusCode = (if map_of (index_docs c i) k = None then 201 else 200),
                     Body = Some (JObj [(''_index'', JStr i), (''_id'', JStr k)])\<rparr>,
                c\<lparr>indices := AList.update i (AList.update k d (index_docs c i)) (indices c)\<rparr>)
           | _ \<Rightarrow> (Inr \<lparr>StatusCode = 400, Body = Some (JObj [(''status'', JNum 400)])\<rparr>, c))
      | GetRequest i k \<Rightarrow>
          (case map_of (index_docs c i) k of
             Some d \<Rightarrow>
               (Inr \<lparr>StatusCode = 200,
                     Body = Some (JObj [(''_index'', JStr i), (''_id'', JStr k),
                                        (''found'', JBool True), (''_source'', JObj d)])\<rparr>, c)
           | None \<Rightarrow>
               (Inr \<lparr>StatusCode = 404,
                     Body = Some (JObj [(''_index'', JStr i), (''_id'', JStr k),
                                        (''found'', JBool False)])\<rparr>, c))
      | DeleteRequest i k \<Rightarrow>
          (case map_of (index_docs c i) k of
             Some d \<Rightarrow>
               (Inr \<lparr>StatusCode = 200, Body = Some (JObj [(''result'', JStr ''deleted'')])\<rparr>,
                c\<lparr>indices := AList.update i (AList.delete k (index_docs c i)) (indices c)\<rparr>)
           | None \<Rightarrow>
               (Inr \<lparr>StatusCode = 404, Body = Some (JObj [(''result'', JStr ''not_found'')])\<rparr>, c))
      | IndicesDeleteRequest i \<Rightarrow>
          (if map_of (indices c) i = None then
             (Inr \<lparr>StatusCode = 404, Body = Some (JObj [(''status'', JNum 404)])\<rparr>, c)
           else (Inr \<lparr>StatusCode = 200, Body = Some (JObj [(''acknowledged'', JBool True)])\<rparr>,
                 c\<lparr>indices := AList.delete i (indices c)\<rparr>))
      | SearchRequest q \<Rightarrow>
          (Inr \<lparr>StatusCode = 200,
                Body = Some (JObj [(''hits'',
                   JObj [(''hits'', JArr (map hit_json (search_hits matches q c)))])])\<rparr>, c)))"

text \<open>
  A world of reference clusters, one behind each client; a request changes only the
  cluster of the client it is sent through.
\<close>

datatype client = PrimaryEndpoint | SecondaryEndpoint

type_synonym clusters = "client \<Rightarrow> cluster"

definition clusters_Do :: "(string \<Rightarrow> fields \<Rightarrow> bool) \<Rightarrow> (client, clusters) backend" where
  "clusters_Do matches cl req w =
     (case cluster_Do matches req (w cl) of (r, c') \<Rightarrow> (r, w(cl := c')))"

definition primary_only :: "client OpenSearch" where
  "primary_only = \<lparr>primaryClient = PrimaryEndpoint, secondaryClient = None\<rparr>"

definition with_secondary :: "client OpenSearch" where
  "with_secondary = \<lparr>primaryClient = PrimaryEndpoint, secondaryClient = Some SecondaryEndpoint\<rparr>"

text \<open>Clusters and worlds to run the engine on; \<open>match_all\<close> lets every query string
  match every document.\<close>

definition match_all :: "string \<Rightarrow> fields \<Rightarrow> bool" where
  "match_all text d = True"

definition holding :: "string \<Rightarrow> string \<Rightarrow> fields \<Rightarrow> cluster" where
  "holding i k d = \<lparr>reachable = True, indices = [(i, [(k, d)])]\<rparr>"

definition empty_cluster :: cluster where
  "empty_cluster = \<lparr>reachable = True, indices = []\<rparr>"

definition unreachable_cluster :: cluster where
  "unreachable_cluster = \<lparr>reachable = False, indices = []\<rparr>"

definition two_clusters :: "cluster \<Rightarrow> cluster \<Rightarrow> clusters" where
  "two_clusters p s = (\<lambda>cl. case cl of PrimaryEndpoint \<Rightarrow> p | SecondaryEndpoint \<Rightarrow> s)"

section \<open>Notions used in the statements\<close>

text \<open>
  The fields of a document after stamping, the \<^verbatim>\<open>refresh\<close> parameter that a list of
  options gives, and the values that are neither a list nor an object.
\<close>

definition stamped :: "fields \<Rightarrow> string \<Rightarrow> string \<Rightarrow> string \<Rightarrow> fields" where
  "stamped d instanceID entityName entityID =
     AList.update ''entity_name'' (JStr entityName)
       (AList.update ''instance_id'' (JStr instanceID)
         (AList.update ''id'' (JStr entityID) d))"

definition refresh_of :: "IndexOption list \<Rightarrow> string" where
  "refresh_of opts =
     strconv_FormatBool (Refresh (foldl (\<lambda>options opt. opt options) \<lparr>Refresh = False\<rparr> opts))"

definition scalar :: "jvalue \<Rightarrow> bool" where
  "scalar v = (case v of JArr a \<Rightarrow> False | JObj obj \<Rightarrow> False | _ \<Rightarrow> True)"

section \<open>Key derivation\<close>

lemma split_at_sep:
  assumes "CHR ''-'' \<notin> set a" "CHR ''-'' \<notin> set b" "a @ CHR ''-'' # x = b @ CHR ''-'' # y"
  shows "a = b \<and> x = y"
  using assms
proof (induction a arbitrary: b)
  case Nil
  then show ?case by (cases b) auto
next
  case (Cons c a)
  then show ?case by (cases b) auto
qed

text \<open>
  C8 (as stated, refuted). The triples \<^verbatim>\<open>(a-b, c, d)\<close> and \<^verbatim>\<open>(a, b-c, d)\<close> are distinct,
  have no empty component, and get the same key \<^verbatim>\<open>a-b-c-d\<close>.
\<close>

theorem GenerateDocumentID_collision:
  "''a-b'' \<noteq> [] \<and> ''c'' \<noteq> [] \<and> ''d'' \<noteq> [] \<and> ''a'' \<noteq> [] \<and> ''b-c'' \<noteq> []
   \<and> (''a-b'', ''c'', ''d'') \<noteq> (''a'', ''b-c'', ''d'')
   \<and> GenerateDocumentID ''a-b'' ''c'' ''d'' = GenerateDocumentID ''a'' ''b-c'' ''d''"
  by (simp add: GenerateDocumentID_def)

text \<open>
  C8 (as amended). Two triples whose instance ids and entity names hold no \<^verbatim>\<open>-\<close> get
  the same key only when they are the same triple; the entity id may hold any character.
  The same triple always gets the same key.
\<close>

theorem GenerateDocumentID_inj_sep_free:
  assumes "CHR ''-'' \<notin> set i1" "CHR ''-'' \<notin> set n1"
      and "CHR ''-'' \<notin> set i2" "CHR ''-'' \<notin> set n2"
  shows "(GenerateDocumentID i1 n1 e1 = GenerateDocumentID i2 n2 e2)
           = (i1 = i2 \<and> n1 = n2 \<and> e1 = e2)"
proof
  assume eq: "GenerateDocumentID i1 n1 e1 = GenerateDocumentID i2 n2 e2"
  then have "i1 @ CHR ''-'' # (n1 @ ''-'' @ e1) = i2 @ CHR ''-'' # (n2 @ ''-'' @ e2)"
    by (simp add: GenerateDocumentID_def)
  with assms have i: "i1 = i2" and rest: "n1 @ ''-'' @ e1 = n2 @ ''-'' @ e2"
    using split_at_sep by blast+
  from rest have "n1 @ CHR ''-'' # e1 = n2 @ CHR ''-'' # e2" by simp
  with assms have "n1 = n2 \<and> e1 = e2"
    using split_at_sep by blast
  with i show "i1 = i2 \<and> n1 = n2 \<and> e1 = e2" by simp
next
  assume "i1 = i2 \<and> n1 = n2 \<and> e1 = e2"
  then show "GenerateDocumentID i1 n1 e1 = GenerateDocumentID i2 n2 e2" by simp
qed

theorem GenerateDocumentID_inj_sep_free_witness:
  "GenerateDocumentID ''acme'' ''person'' ''p-1'' \<noteq> GenerateDocumentID ''acme'' ''company'' ''p-1''
   \<and> GenerateDocumentID ''acme'' ''person'' ''p-1'' = ''acme-person-p-1''"
proof -
  have a: "CHR ''-'' \<notin> set ''acme''" and b: "CHR ''-'' \<notin> set ''person''"
    and c: "CHR ''-'' \<notin> set ''company''"
    by simp_all
  show ?thesis
    using GenerateDocumentID_inj_sep_free [OF a b a c, where ?e1.0="''p-1''" and ?e2.0="''p-1''"]
    by (simp add: GenerateDocumentID_def)
qed

section \<open>Metadata stamping\<close>

text \<open>
  C9. When one of the three identifiers is empty, \<^verbatim>\<open>AddDocumentMetaData\<close> returns an
  error whose text names an empty identifier (the entity id is looked at first, then the
  instance id, then the entity name), it returns no document, and the store of maps is
  what it was before the call.
\<close>

theorem AddDocumentMetaData_missing_field:
  assumes "instanceID = [] \<or> entityName = [] \<or> entityID = []"
  shows "AddDocumentMetaData h d instanceID entityName entityID =
           (Return (Inl (New (
              if entityID = [] then ''entityID is required''
              else if instanceID = [] then ''instanceID is required''
              else ''entityName is required''))), h)"
  using assms by (auto simp: AddDocumentMetaData_def)

theorem AddDocumentMetaData_missing_field_witness:
  "AddDocumentMetaData (\<lambda>r. [(''name'', JStr ''A'')]) (MapRef 0) ''acme'' [] ''p1''
     = (Return (Inl (New ''entityName is required'')), (\<lambda>r. [(''name'', JStr ''A'')]))"
proof -
  have a: "''acme'' = [] \<or> [] = ([]::string) \<or> ''p1'' = []" by simp
  show ?thesis
    using AddDocumentMetaData_missing_field
            [OF a, where h="\<lambda>r. [(''name'', JStr ''A'')]" and d="MapRef 0"]
    by simp
qed

section \<open>Requests and the trace\<close>

lemmas find_defs =
  FindDocument_def findDocument_def executeReadRequest_def
  decodeResponse_def IsError_def decode_Source_def decode_source_member_def
  compareDocuments_def GenerateDocumentID_def Let_def

lemmas cluster_defs =
  clusters_Do_def cluster_Do_def index_docs_def with_secondary_def primary_only_def
  holding_def empty_cluster_def two_clusters_def unreachable_cluster_def match_all_def


lemmas delete_defs =
  DeleteDocument_def DeleteIndex_def deleteDocument_def deleteIndex_def
  executeRequest_def IsError_def GenerateDocumentID_def Let_def

lemmas search_defs =
  Search_def json_Marshal_def executeReadRequest_def extractDocumentsFromSearchResponse_def
  decodeResponse_def IsError_def decode_Hits_def decode_inner_hits_def decode_hit_def
  decode_source_member_def hit_json_def search_hits_def term_filter_ok_def query_string_ok_def
  constructSearchQuery_def Let_def

lemmas hyp_defs =
  putDocument_def deleteDocument_def deleteIndex_def executeRequest_def IsError_def
  GenerateDocumentID_def stamped_def refresh_of_def strconv_FormatBool_def cluster_defs

lemma executeReadRequest_logged:
  "executeReadRequest (logged be) c req (w, tr) =
     (case executeReadRequest be c req w of (r, w') \<Rightarrow> (r, (w', tr @ [(c, req)])))"
  by (simp add: executeReadRequest_def logged_def split: prod.splits sum.splits)

lemma executeRequest_logged:
  "executeRequest (logged be) c req (w, tr) =
     (case executeRequest be c req w of (r, w') \<Rightarrow> (r, (w', tr @ [(c, req)])))"
  by (simp add: executeRequest_def logged_def split: prod.splits sum.splits)

lemma findDocument_not_found:
  assumes "be c (GetRequest i k) w = (Inr resp, w')" "StatusCode resp = 404"
  shows "findDocument be c i k w = (Inl ErrDocumentNotFound, w')"
  using assms by (simp add: findDocument_def executeReadRequest_def decodeResponse_def IsError_def)

lemma findDocument_logged:
  "findDocument (logged be) c i k (w, tr) =
     (case findDocument be c i k w of (r, w') \<Rightarrow> (r, (w', tr @ [(c, GetRequest i k)])))"
  by (simp add: findDocument_def executeReadRequest_logged split: prod.splits sum.splits)

lemma putDocument_logged:
  "putDocument (logged be) c i k b r (w, tr) =
     (case putDocument be c i k b r w of (e, w') \<Rightarrow> (e, (w', tr @ [(c, IndexRequest i k b r)])))"
  by (simp add: putDocument_def executeRequest_logged)

lemma deleteDocument_logged:
  "deleteDocument (logged be) c i k (w, tr) =
     (case deleteDocument be c i k w of (e, w') \<Rightarrow> (e, (w', tr @ [(c, DeleteRequest i k)])))"
  by (simp add: deleteDocument_def executeRequest_logged)

lemma deleteIndex_logged:
  "deleteIndex (logged be) c i (w, tr) =
     (case deleteIndex be c i w of (e, w') \<Rightarrow> (e, (w', tr @ [(c, IndicesDeleteRequest i)])))"
  by (simp add: deleteIndex_def executeRequest_logged)

lemma PutDocument_stamped:
  assumes "instanceID \<noteq> []" "entityName \<noteq> []" "entityID \<noteq> []"
  shows "PutDocument be os instanceID indexName entityName entityID (MapRef r) opts w h =
     (let h' = h(r := stamped (h r) instanceID entityName entityID);
          documentID = GenerateDocumentID instanceID entityName entityID;
          docByte = JObj (h' r); refresh = refresh_of opts
      in case putDocument be (primaryClient os) indexName documentID docByte refresh w of
           (Some err, w') \<Rightarrow> (Return (Some (Errorf_v ''primary client: %v'' err)), w', h')
         | (None, w') \<Rightarrow>
             (case secondaryClient os of
                None \<Rightarrow> (Return None, w', h')
              | Some secondary \<Rightarrow>
                  (case putDocument be secondary indexName documentID docByte refresh w' of
                     (Some err, w'') \<Rightarrow>
                       (Return (Some (Errorf_v ''secondary client: %v'' err)), w'', h')
                   | (None, w'') \<Rightarrow> (Return None, w'', h'))))"
  using assms
  by (simp add: PutDocument_def AddDocumentMetaData_def json_Marshal_Document_def stamped_def
        refresh_of_def Let_def)

lemma stamped_map_of:
  "map_of (stamped d instanceID entityName entityID) =
     (map_of d)(''id'' \<mapsto> JStr entityID, ''instance_id'' \<mapsto> JStr instanceID,
                ''entity_name'' \<mapsto> JStr entityName)"
  by (simp add: stamped_def AList.update_conv')

lemma PutDocument_heap:
  assumes "instanceID \<noteq> []" "entityName \<noteq> []" "entityID \<noteq> []"
  shows "snd (snd (PutDocument be os instanceID indexName entityName entityID (MapRef r) opts w h))
           = h(r := stamped (h r) instanceID entityName entityID)"
  by (simp add: PutDocument_stamped [OF assms] Let_def split: prod.splits option.splits)

section \<open>Stamping in place\<close>

text \<open>
  C10. With three non-empty identifiers and a map that is not nil,
  \<^verbatim>\<open>AddDocumentMetaData\<close> returns the reference it was called on, and the store differs
  from the one before the call only behind that reference: there \<^verbatim>\<open>id\<close>,
  \<^verbatim>\<open>instance_id\<close> and \<^verbatim>\<open>entity_name\<close> are set to the given identifiers, whatever was
  stored under them before, and every other field is as it was. No map is allocated.
  \<^verbatim>\<open>PutDocument\<close> leaves its caller's document changed in this way, whatever the clusters
  answer.
\<close>

theorem AddDocumentMetaData_in_place:
  assumes "instanceID \<noteq> []" "entityName \<noteq> []" "entityID \<noteq> []"
  shows "AddDocumentMetaData h (MapRef r) instanceID entityName entityID =
           (Return (Inr (MapRef r)), h(r := stamped (h r) instanceID entityName entityID))
         \<and> map_of (stamped (h r) instanceID entityName entityID) =
             (map_of (h r))(''id'' \<mapsto> JStr entityID, ''instance_id'' \<mapsto> JStr instanceID,
                            ''entity_name'' \<mapsto> JStr entityName)
         \<and> snd (snd (PutDocument be os instanceID indexName entityName entityID (MapRef r) opts w h))
             = h(r := stamped (h r) instanceID entityName entityID)"
  using assms PutDocument_heap [OF assms]
  by (simp add: AddDocumentMetaData_def stamped_map_of) (simp add: stamped_def)

theorem AddDocumentMetaData_in_place_witness:
  "AddDocumentMetaData (\<lambda>r. [(''id'', JNum 7)]) (MapRef 0) ''acme'' ''person'' ''p1''
     = (Return (Inr (MapRef 0)),
        (\<lambda>r. [(''id'', JNum 7)])(0 := [(''id'', JStr ''p1''), (''instance_id'', JStr ''acme''),
                                        (''entity_name'', JStr ''person'')]))
   \<and> snd (snd (PutDocument (clusters_Do match_all) primary_only ''acme'' ''idx'' ''person'' ''p1''
                 (MapRef 0) [] (two_clusters unreachable_cluster empty_cluster)
                 (\<lambda>r. [(''id'', JNum 7)]))) 0
       = [(''id'', JStr ''p1''), (''instance_id'', JStr ''acme''), (''entity_name'', JStr ''person'')]"
proof -
  have a: "''acme'' \<noteq> []" and b: "''person'' \<noteq> []" and c: "''p1'' \<noteq> []" by simp_all
  show ?thesis
    using AddDocumentMetaData_in_place [OF a b c, of "\<lambda>r. [(''id'', JNum 7)]" 0
            "clusters_Do match_all" primary_only "''idx''" "[]"
            "two_clusters unreachable_cluster empty_cluster"]
    by (simp add: stamped_def)
qed

section \<open>Writes and deletes on two clusters\<close>

lemma DeleteIndex_first:
  "take (Suc (length tr)) (snd (snd (DeleteIndex (logged be) os indexName (w, tr))))
     = tr @ [(primaryClient os, IndicesDeleteRequest indexName)]"
  by (simp add: DeleteIndex_def deleteIndex_logged split: prod.splits option.splits)

lemma DeleteDocument_first:
  "take (Suc (length tr))
     (snd (snd (DeleteDocument (logged be) os instanceID indexName entityName entityID (w, tr))))
     = tr @ [(primaryClient os,
              DeleteRequest indexName (GenerateDocumentID instanceID entityName entityID))]"
  by (simp add: DeleteDocument_def deleteDocument_logged Let_def split: prod.splits option.splits)

lemma PutDocument_first:
  assumes "instanceID \<noteq> []" "entityName \<noteq> []" "entityID \<noteq> []"
  shows "take (Suc (length tr))
     (snd (fst (snd (PutDocument (logged be) os instanceID indexName entityName entityID
                       (MapRef r) opts (w, tr) h))))
     = tr @ [(primaryClient os,
              IndexRequest indexName (GenerateDocumentID instanceID entityName entityID)
                (JObj (stamped (h r) instanceID entityName entityID)) (refresh_of opts))]"
  by (simp add: PutDocument_stamped [OF assms] putDocument_logged Let_def
        split: prod.splits option.splits)

text \<open>
  C2. For \<^verbatim>\<open>DeleteIndex\<close>, \<^verbatim>\<open>DeleteDocument\<close> and \<^verbatim>\<open>PutDocument\<close> (once the metadata
  is stamped), over every backend, with the requests traced in order: when the step on
  the primary fails, the call returns that error under the primary tag, the world is the
  one the primary's step left, and the trace has grown by the one request through the
  primary client, so nothing was sent through the secondary. When the step on the primary
  succeeds and the step on the configured secondary fails, the call returns that error
  under the secondary tag, the trace has grown by the primary's request followed by the
  same request through the secondary, and the world is what the secondary's failed step
  made of the world the primary's step left: nothing is sent to undo the primary's step.
  On every run the first request of the call goes through the primary client.
\<close>

theorem fan_out_primary_first:
  "(deleteIndex be (primaryClient os) indexName w = (Some e, w') \<longrightarrow>
      DeleteIndex (logged be) os indexName (w, tr) =
        (Some (Errorf_v ''primary client: %v'' e),
         (w', tr @ [(primaryClient os, IndicesDeleteRequest indexName)])))
   \<and> (deleteIndex be (primaryClient os) indexName w = (None, w') \<and> secondaryClient os = Some s
        \<and> deleteIndex be s indexName w' = (Some e, w'') \<longrightarrow>
      DeleteIndex (logged be) os indexName (w, tr) =
        (Some (Errorf_v ''secondary client: %v'' e),
         (w'', tr @ [(primaryClient os, IndicesDeleteRequest indexName),
                     (s, IndicesDeleteRequest indexName)])))
   \<and> (deleteDocument be (primaryClient os) indexName
          (GenerateDocumentID instanceID entityName entityID) w = (Some e, w') \<longrightarrow>
      DeleteDocument (logged be) os instanceID indexName entityName entityID (w, tr) =
        (Some (Errorf_v ''primary client: %v'' e),
         (w', tr @ [(primaryClient os,
                     DeleteRequest indexName (GenerateDocumentID instanceID entityName entityID))])))
   \<and> (deleteDocument be (primaryClient os) indexName
          (GenerateDocumentID instanceID entityName entityID) w = (None, w')
        \<and> secondaryClient os = Some s
        \<and> deleteDocument be s indexName
             (GenerateDocumentID instanceID entityName entityID) w' = (Some e, w'') \<longrightarrow>
      DeleteDocument (logged be) os instanceID indexName entityName entityID (w, tr) =
        (Some (Errorf_v ''secondary client: %v'' e),
         (w'', tr @ [(primaryClient os,
                      DeleteRequest indexName (GenerateDocumentID instanceID entityName entityID)),
                     (s, DeleteRequest indexName (GenerateDocumentID instanceID entityName entityID))])))
   \<and> (instanceID \<noteq> [] \<and> entityName \<noteq> [] \<and> entityID \<noteq> []
        \<and> putDocument be (primaryClient os) indexName
             (GenerateDocumentID instanceID entityName entityID)
             (JObj (stamped (h r) instanceID entityName entityID)) (refresh_of opts) w = (Some e, w') \<longrightarrow>
      PutDocument (logged be) os instanceID indexName entityName entityID (MapRef r) opts (w, tr) h =
        (Return (Some (Errorf_v ''primary client: %v'' e)),
         (w', tr @ [(primaryClient os,
                     IndexRequest indexName (GenerateDocumentID instanceID entityName entityID)
                       (JObj (stamped (h r) instanceID entityName entityID)) (refresh_of opts))]),
         h(r := stamped (h r) instanceID entityName entityID)))
   \<and> (instanceID \<noteq> [] \<and> entityName \<noteq> [] \<and> entityID \<noteq> []
        \<and> putDocument be (primaryClient os) indexName
             (GenerateDocumentID instanceID entityName entityID)
             (JObj (stamped (h r) instanceID entityName entityID)) (refresh_of opts) w = (None, w')
        \<and> secondaryClient os = Some s
        \<and> putDocument be s indexName
             (GenerateDocumentID instanceID entityName entityID)
             (JObj (stamped (h r) instanceID entityName entityID)) (refresh_of opts) w' = (Some e, w'') \<longrightarrow>
      PutDocument (logged be) os instanceID indexName entityName entityID (MapRef r) opts (w, tr) h =
        (Return (Some (Errorf_v ''secondary client: %v'' e)),
         (w'', tr @ [(primaryClient os,
                      IndexRequest indexName (GenerateDocumentID instanceID entityName entityID)
                        (JObj (stamped (h r) instanceID entityName entityID)) (refresh_of opts)),
                     (s, IndexRequest indexName (GenerateDocumentID instanceID entityName entityID)
                        (JObj (stamped (h r) instanceID entityName entityID)) (refresh_of opts))]),
         h(r := stamped (h r) instanceID entityName entityID)))
   \<and> take (Suc (length tr)) (snd (snd (DeleteIndex (logged be) os indexName (w, tr))))
       = tr @ [(primaryClient os, IndicesDeleteRequest indexName)]
   \<and> take (Suc (length tr))
         (snd (snd (DeleteDocument (logged be) os instanceID indexName entityName entityID (w, tr))))
       = tr @ [(primaryClient os,
                DeleteRequest indexName (GenerateDocumentID instanceID entityName entityID))]
   \<and> (instanceID \<noteq> [] \<and> entityName \<noteq> [] \<and> entityID \<noteq> [] \<longrightarrow>
        take (Suc (length tr))
          (snd (fst (snd (PutDocument (logged be) os instanceID indexName entityName entityID
                            (MapRef r) opts (w, tr) h))))
        = tr @ [(primaryClient os,
                 IndexRequest indexName (GenerateDocumentID instanceID entityName entityID)
                   (JObj (stamped (h r) instanceID entityName entityID)) (refresh_of opts))])"
proof (intro conjI impI)
  show "DeleteIndex (logged be) os indexName (w, tr) =
        (Some (Errorf_v ''primary client: %v'' e),
         (w', tr @ [(primaryClient os, IndicesDeleteRequest indexName)]))"
    if "deleteIndex be (primaryClient os) indexName w = (Some e, w')"
    using that by (simp add: DeleteIndex_def deleteIndex_logged)
next
  show "DeleteIndex (logged be) os indexName (w, tr) =
        (Some (Errorf_v ''secondary client: %v'' e),
         (w'', tr @ [(primaryClient os, IndicesDeleteRequest indexName),
                     (s, IndicesDeleteRequest indexName)]))"
    if "deleteIndex be (primaryClient os) indexName w = (None, w') \<and> secondaryClient os = Some s
        \<and> deleteIndex be s indexName w' = (Some e, w'')"
    using that by (simp add: DeleteIndex_def deleteIndex_logged)
next
  assume "deleteDocument be (primaryClient os) indexName
          (GenerateDocumentID instanceID entityName entityID) w = (Some e, w')"
  then show "DeleteDocument (logged be) os instanceID indexName entityName entityID (w, tr) =
        (Some (Errorf_v ''primary client: %v'' e),
         (w', tr @ [(primaryClient os,
                     DeleteRequest indexName (GenerateDocumentID instanceID entityName entityID))]))"
    by (simp add: DeleteDocument_def deleteDocument_logged Let_def)
next
  assume "deleteDocument be (primaryClient os) indexName
          (GenerateDocumentID instanceID entityName entityID) w = (None, w')
        \<and> secondaryClient os = Some s
        \<and> deleteDocument be s indexName
             (GenerateDocumentID instanceID entityName entityID) w' = (Some e, w'')"
  then show "DeleteDocument (logged be) os instanceID indexName entityName entityID (w, tr) =
        (Some (Errorf_v ''secondary client: %v'' e),
         (w'', tr @ [(primaryClient os,
                      DeleteRequest indexName (GenerateDocumentID instanceID entityName entityID)),
                     (s, DeleteRequest indexName (GenerateDocumentID instanceID entityName entityID))]))"
    by (simp add: DeleteDocument_def deleteDocument_logged Let_def)
next
  assume "instanceID \<noteq> [] \<and> entityName \<noteq> [] \<and> entityID \<noteq> []
        \<and> putDocument be (primaryClient os) indexName
             (GenerateDocumentID instanceID entityName entityID)
             (JObj (stamped (h r) instanceID entityName entityID)) (refresh_of opts) w = (Some e, w')"
  then show "PutDocument (logged be) os instanceID indexName entityName entityID (MapRef r) opts (w, tr) h =
        (Return (Some (Errorf_v ''primary client: %v'' e)),
         (w', tr @ [(primaryClient os,
                     IndexRequest indexName (GenerateDocumentID instanceID entityName entityID)
                       (JObj (stamped (h r) instanceID entityName entityID)) (refresh_of opts))]),
         h(r := stamped (h r) instanceID entityName entityID))"
    by (simp add: PutDocument_stamped putDocument_logged Let_def)
next
  assume "instanceID \<noteq> [] \<and> entityName \<noteq> [] \<and> entityID \<noteq> []
        \<and> putDocument be (primaryClient os) indexName
             (GenerateDocumentID instanceID entityName entityID)
             (JObj (stamped (h r) instanceID entityName entityID)) (refresh_of opts) w = (None, w')
        \<and> secondaryClient os = Some s
        \<and> putDocument be s indexName
             (GenerateDocumentID instanceID entityName entityID)
             (JObj (stamped (h r) instanceID entityName entityID)) (refresh_of opts) w' = (Some e, w'')"
  then show "PutDocument (logged be) os instanceID indexName entityName entityID (MapRef r) opts (w, tr) h =
        (Return (Some (Errorf_v ''secondary client: %v'' e)),
         (w'', tr @ [(primaryClient os,
                      IndexRequest indexName (GenerateDocumentID instanceID entityName entityID)
                        (JObj (stamped (h r) instanceID entityName entityID)) (refresh_of opts)),
                     (s, IndexRequest indexName (GenerateDocumentID instanceID entityName entityID)
                        (JObj (stamped (h r) instanceID entityName entityID)) (refresh_of opts))]),
         h(r := stamped (h r) instanceID entityName entityID))"
    by (simp add: PutDocument_stamped putDocument_logged Let_def)
next
  show "take (Suc (length tr)) (snd (snd (DeleteIndex (logged be) os indexName (w, tr))))
       = tr @ [(primaryClient os, IndicesDeleteRequest indexName)]"
    by (rule DeleteIndex_first)
next
  show "take (Suc (length tr))
         (snd (snd (DeleteDocument (logged be) os instanceID indexName entityName entityID (w, tr))))
       = tr @ [(primaryClient os,
                DeleteRequest indexName (GenerateDocumentID instanceID entityName entityID))]"
    by (rule DeleteDocument_first)
next
  assume "instanceID \<noteq> [] \<and> entityName \<noteq> [] \<and> entityID \<noteq> []"
  then show "take (Suc (length tr))
          (snd (fst (snd (PutDocument (logged be) os instanceID indexName entityName entityID
                            (MapRef r) opts (w, tr) h))))
        = tr @ [(primaryClient os,
                 IndexRequest indexName (GenerateDocumentID instanceID entityName entityID)
                   (JObj (stamped (h r) instanceID entityName entityID)) (refresh_of opts))]"
    by (simp add: PutDocument_first)
qed

theorem fan_out_primary_first_witness:
  "DeleteIndex (logged (clusters_Do match_all)) with_secondary ''idx''
     (two_clusters unreachable_cluster empty_cluster, [])
   = (Some (Errorf_v ''primary client: %v''
              (Errorf_v ''error executing request: %v'' (New ''connection refused''))),
      ((two_clusters unreachable_cluster empty_cluster)(PrimaryEndpoint := unreachable_cluster),
       [(PrimaryEndpoint, IndicesDeleteRequest ''idx'')]))
   \<and> DeleteDocument (logged (clusters_Do match_all)) with_secondary ''acme'' ''idx'' ''person'' ''p1''
     (two_clusters unreachable_cluster empty_cluster, [])
   = (Some (Errorf_v ''primary client: %v''
              (Errorf_v ''error executing request: %v'' (New ''connection refused''))),
      ((two_clusters unreachable_cluster empty_cluster)(PrimaryEndpoint := unreachable_cluster),
       [(PrimaryEndpoint, DeleteRequest ''idx'' ''acme-person-p1'')]))
   \<and> fst (PutDocument (logged (clusters_Do match_all)) with_secondary ''acme'' ''idx'' ''person'' ''p1''
          (MapRef 0) [] (two_clusters unreachable_cluster empty_cluster, []) (\<lambda>r. [(''name'', JStr ''A'')]))
   = Return (Some (Errorf_v ''primary client: %v''
              (Errorf_v ''error executing request: %v'' (New ''connection refused''))))
   \<and> snd (fst (snd (PutDocument (logged (clusters_Do match_all)) with_secondary ''acme'' ''idx'' ''person'' ''p1''
          (MapRef 0) [] (two_clusters unreachable_cluster empty_cluster, []) (\<lambda>r. [(''name'', JStr ''A'')]))))
   = [(PrimaryEndpoint, IndexRequest ''idx'' ''acme-person-p1''
         (JObj [(''name'', JStr ''A''), (''id'', JStr ''p1''), (''instance_id'', JStr ''acme''),
                (''entity_name'', JStr ''person'')]) ''false'')]
   \<and> DeleteIndex (logged (clusters_Do match_all)) with_secondary ''idx''
     (two_clusters (holding ''idx'' ''acme-person-p1'' [(''name'', JStr ''A'')]) unreachable_cluster, [])
   = (Some (Errorf_v ''secondary client: %v''
              (Errorf_v ''error executing request: %v'' (New ''connection refused''))),
      ((two_clusters (holding ''idx'' ''acme-person-p1'' [(''name'', JStr ''A'')]) unreachable_cluster)
         (PrimaryEndpoint := empty_cluster, SecondaryEndpoint := unreachable_cluster),
       [(PrimaryEndpoint, IndicesDeleteRequest ''idx''),
        (SecondaryEndpoint, IndicesDeleteRequest ''idx'')]))
   \<and> DeleteDocument (logged (clusters_Do match_all)) with_secondary ''acme'' ''idx'' ''person'' ''p1''
     (two_clusters (holding ''idx'' ''acme-person-p1'' [(''name'', JStr ''A'')]) unreachable_cluster, [])
   = (Some (Errorf_v ''secondary client: %v''
              (Errorf_v ''error executing request: %v'' (New ''connection refused''))),
      ((two_clusters (holding ''idx'' ''acme-person-p1'' [(''name'', JStr ''A'')]) unreachable_cluster)
         (PrimaryEndpoint := \<lparr>reachable = True, indices = [(''idx'', [])]\<rparr>,
          SecondaryEndpoint := unreachable_cluster),
       [(PrimaryEndpoint, DeleteRequest ''idx'' ''acme-person-p1''),
        (SecondaryEndpoint, DeleteRequest ''idx'' ''acme-person-p1'')]))
   \<and> fst (PutDocument (logged (clusters_Do match_all)) with_secondary ''acme'' ''idx'' ''person'' ''p1''
          (MapRef 0) [] (two_clusters empty_cluster unreachable_cluster, []) (\<lambda>r. [(''name'', JStr ''A'')]))
   = Return (Some (Errorf_v ''secondary client: %v''
              (Errorf_v ''error executing request: %v'' (New ''connection refused''))))
   \<and> fst (fst (snd (PutDocument (logged (clusters_Do match_all)) with_secondary ''acme'' ''idx'' ''person'' ''p1''
          (MapRef 0) [] (two_clusters empty_cluster unreachable_cluster, []) (\<lambda>r. [(''name'', JStr ''A'')]))))
        PrimaryEndpoint
   = holding ''idx'' ''acme-person-p1''
       [(''name'', JStr ''A''), (''id'', JStr ''p1''), (''instance_id'', JStr ''acme''),
        (''entity_name'', JStr ''person'')]"
proof -
  let ?B = "clusters_Do match_all"
  let ?e = "Errorf_v ''error executing request: %v'' (New ''connection refused'')"
  let ?h = "\<lambda>r::nat. [(''name'', JStr ''A'')]"
  let ?W1 = "two_clusters unreachable_cluster empty_cluster"
  let ?W2 = "two_clusters (holding ''idx'' ''acme-person-p1'' [(''name'', JStr ''A'')]) unreachable_cluster"
  let ?W3 = "two_clusters empty_cluster unreachable_cluster"
  let ?d = "[(''name'', JStr ''A''), (''id'', JStr ''p1''), (''instance_id'', JStr ''acme''),
             (''entity_name'', JStr ''person'')]"
  note T = fan_out_primary_first [where be="?B" and os=with_secondary and indexName="''idx''"
             and instanceID="''acme''" and entityName="''person''" and entityID="''p1''"
             and tr="[]" and e="?e" and s=SecondaryEndpoint and h="?h" and r=0 and opts="[]"]
  note T1 = T [where w="?W1" and w'="?W1(PrimaryEndpoint := unreachable_cluster)"]
  note T2 = T [where w="?W2" and w'="?W2(PrimaryEndpoint := empty_cluster)"
                 and w''="?W2(PrimaryEndpoint := empty_cluster, SecondaryEndpoint := unreachable_cluster)"]
  note T3 = T [where w="?W2" and w'="?W2(PrimaryEndpoint := \<lparr>reachable = True, indices = [(''idx'', [])]\<rparr>)"
                 and w''="?W2(PrimaryEndpoint := \<lparr>reachable = True, indices = [(''idx'', [])]\<rparr>,
                              SecondaryEndpoint := unreachable_cluster)"]
  note T4 = T [where w="?W3" and w'="?W3(PrimaryEndpoint := holding ''idx'' ''acme-person-p1'' ?d)"
                 and w''="?W3(PrimaryEndpoint := holding ''idx'' ''acme-person-p1'' ?d,
                              SecondaryEndpoint := unreachable_cluster)"]
  have r1: "DeleteIndex (logged ?B) with_secondary ''idx'' (?W1, []) =
        (Some (Errorf_v ''primary client: %v'' ?e),
         (?W1(PrimaryEndpoint := unreachable_cluster),
          [] @ [(primaryClient with_secondary, IndicesDeleteRequest ''idx'')]))"
    by (rule T1 [THEN conjunct1, THEN mp]) (simp add: hyp_defs)
  have r2: "DeleteIndex (logged ?B) with_secondary ''idx'' (?W2, []) =
        (Some (Errorf_v ''secondary client: %v'' ?e),
         (?W2(PrimaryEndpoint := empty_cluster, SecondaryEndpoint := unreachable_cluster),
          [] @ [(primaryClient with_secondary, IndicesDeleteRequest ''idx''),
                (SecondaryEndpoint, IndicesDeleteRequest ''idx'')]))"
    by (rule T2 [THEN conjunct2, THEN conjunct1, THEN mp]) (simp add: hyp_defs)
  have r3: "DeleteDocument (logged ?B) with_secondary ''acme'' ''idx'' ''person'' ''p1'' (?W1, []) =
        (Some (Errorf_v ''primary client: %v'' ?e),
         (?W1(PrimaryEndpoint := unreachable_cluster),
          [] @ [(primaryClient with_secondary,
                 DeleteRequest ''idx'' (GenerateDocumentID ''acme'' ''person'' ''p1''))]))"
    by (rule T1 [THEN conjunct2, THEN conjunct2, THEN conjunct1, THEN mp]) (simp add: hyp_defs)
  have r4: "DeleteDocument (logged ?B) with_secondary ''acme'' ''idx'' ''person'' ''p1'' (?W2, []) =
        (Some (Errorf_v ''secondary client: %v'' ?e),
         (?W2(PrimaryEndpoint := \<lparr>reachable = True, indices = [(''idx'', [])]\<rparr>,
              SecondaryEndpoint := unreachable_cluster),
          [] @ [(primaryClient with_secondary,
                 DeleteRequest ''idx'' (GenerateDocumentID ''acme'' ''person'' ''p1'')),
                (SecondaryEndpoint,
                 DeleteRequest ''idx'' (GenerateDocumentID ''acme'' ''person'' ''p1''))]))"
    by (rule T3 [THEN conjunct2, THEN conjunct2, THEN conjunct2, THEN conjunct1, THEN mp])
       (simp add: hyp_defs)
  have r5: "PutDocument (logged ?B) with_secondary ''acme'' ''idx'' ''person'' ''p1'' (MapRef 0) []
              (?W1, []) ?h =
        (Return (Some (Errorf_v ''primary client: %v'' ?e)),
         (?W1(PrimaryEndpoint := unreachable_cluster),
          [] @ [(primaryClient with_secondary,
                 IndexRequest ''idx'' (GenerateDocumentID ''acme'' ''person'' ''p1'')
                   (JObj (stamped (?h 0) ''acme'' ''person'' ''p1'')) (refresh_of []))]),
         ?h(0 := stamped (?h 0) ''acme'' ''person'' ''p1''))"
    by (rule T1 [THEN conjunct2, THEN conjunct2, THEN conjunct2, THEN conjunct2, THEN conjunct1,
                 THEN mp])
       (simp add: hyp_defs)
  have r6: "PutDocument (logged ?B) with_secondary ''acme'' ''idx'' ''person'' ''p1'' (MapRef 0) []
              (?W3, []) ?h =
        (Return (Some (Errorf_v ''secondary client: %v'' ?e)),
         (?W3(PrimaryEndpoint := holding ''idx'' ''acme-person-p1'' ?d,
              SecondaryEndpoint := unreachable_cluster),
          [] @ [(primaryClient with_secondary,
                 IndexRequest ''idx'' (GenerateDocumentID ''acme'' ''person'' ''p1'')
                   (JObj (stamped (?h 0) ''acme'' ''person'' ''p1'')) (refresh_of [])),
                (SecondaryEndpoint,
                 IndexRequest ''idx'' (GenerateDocumentID ''acme'' ''person'' ''p1'')
                   (JObj (stamped (?h 0) ''acme'' ''person'' ''p1'')) (refresh_of []))]),
         ?h(0 := stamped (?h 0) ''acme'' ''person'' ''p1''))"
    by (rule T4 [THEN conjunct2, THEN conjunct2, THEN conjunct2, THEN conjunct2, THEN conjunct2,
                 THEN conjunct1, THEN mp])
       (simp add: hyp_defs)
  show ?thesis
    unfolding r1 r2 r3 r4 r5 r6
    by (simp add: with_secondary_def GenerateDocumentID_def stamped_def refresh_of_def
          strconv_FormatBool_def)
qed

section \<open>Reading a document\<close>

text \<open>
  C6. When the primary answers the get for the derived key with status 404,
  \<^verbatim>\<open>FindDocument\<close> returns an error, never a document: \<^verbatim>\<open>ErrDocumentNotFound\<close> wrapped
  with the primary tag under \<^verbatim>\<open>%w\<close>, so that \<^verbatim>\<open>errors.Is\<close> finds it. Whatever the
  backend and whether or not a secondary is configured, the one request sent during the
  call is that get through the primary client.
\<close>

theorem FindDocument_primary_not_found:
  assumes "be (primaryClient os) (GetRequest indexName (GenerateDocumentID instanceID entityName entityID)) w
             = (Inr resp, w')"
      and "StatusCode resp = 404"
  shows "FindDocument (logged be) os instanceID indexName entityName entityID (w, tr) =
           (Return (Inl (Errorf_w ''primary client: %w'' ErrDocumentNotFound)),
            (w', tr @ [(primaryClient os,
                         GetRequest indexName (GenerateDocumentID instanceID entityName entityID))]))
         \<and> errors_Is (Errorf_w ''primary client: %w'' ErrDocumentNotFound) ErrDocumentNotFound"
  using findDocument_not_found [where be=be, OF assms]
  by (simp add: FindDocument_def findDocument_logged)

theorem FindDocument_primary_not_found_witness:
  "FindDocument (logged (clusters_Do match_all)) with_secondary ''acme'' ''idx'' ''person'' ''p1''
     (two_clusters empty_cluster (holding ''idx'' ''acme-person-p1'' [(''name'', JStr ''A'')]), [])
   = (Return (Inl (Errorf_w ''primary client: %w'' ErrDocumentNotFound)),
      (two_clusters empty_cluster (holding ''idx'' ''acme-person-p1'' [(''name'', JStr ''A'')]),
       [(PrimaryEndpoint, GetRequest ''idx'' ''acme-person-p1'')]))"
proof -
  let ?w = "two_clusters empty_cluster (holding ''idx'' ''acme-person-p1'' [(''name'', JStr ''A'')])"
  let ?resp = "\<lparr>StatusCode = 404, Body = Some (JObj [(''_index'', JStr ''idx''),
                  (''_id'', JStr ''acme-person-p1''), (''found'', JBool False)])\<rparr>"
  have same: "?w(PrimaryEndpoint := empty_cluster) = ?w"
    by (auto simp: two_clusters_def fun_eq_iff split: client.splits)
  have a: "clusters_Do match_all (primaryClient with_secondary)
             (GetRequest ''idx'' (GenerateDocumentID ''acme'' ''person'' ''p1'')) ?w = (Inr ?resp, ?w)"
    using same by (simp add: cluster_defs GenerateDocumentID_def)
  have b: "StatusCode ?resp = 404" by simp
  show ?thesis
    using FindDocument_primary_not_found
            [where be="clusters_Do match_all" and os=with_secondary and instanceID="''acme''"
               and entityName="''person''" and entityID="''p1''" and indexName="''idx''"
               and tr="[]", OF a b]
    by (simp add: with_secondary_def GenerateDocumentID_def)
qed

text \<open>
  C5 (as stated, refuted). The primary holds the document and the secondary, which is
  reachable, does not: the call returns \<^verbatim>\<open>ErrDocumentNotFound\<close> under the secondary tag,
  and \<^verbatim>\<open>errors.Is\<close> does not find \<^verbatim>\<open>ErrDocumentMismatch\<close> in it.
\<close>

theorem FindDocument_secondary_not_found_counterexample:
  "fst (FindDocument (clusters_Do match_all) with_secondary ''acme'' ''idx'' ''person'' ''p1''
     (two_clusters (holding ''idx'' ''acme-person-p1'' [(''name'', JStr ''A'')]) empty_cluster))
   = Return (Inl (Errorf_w ''secondary client: %w'' ErrDocumentNotFound))
   \<and> \<not> errors_Is (Errorf_w ''secondary client: %w'' ErrDocumentNotFound) ErrDocumentMismatch"
  by (simp add: find_defs cluster_defs)

text \<open>
  C5 (as amended). When a secondary is configured, the primary lookup returns a document
  and the secondary answers the get with status 404, \<^verbatim>\<open>FindDocument\<close> returns no
  document but an error: \<^verbatim>\<open>ErrDocumentNotFound\<close> wrapped with the secondary tag. The
  error is a not-found error for \<^verbatim>\<open>errors.Is\<close> and is not a mismatch error.
\<close>

theorem FindDocument_secondary_not_found:
  assumes "findDocument be (primaryClient os) indexName
             (GenerateDocumentID instanceID entityName entityID) w = (Inr pryDoc, w')"
      and "secondaryClient os = Some secondary"
      and "be secondary (GetRequest indexName (GenerateDocumentID instanceID entityName entityID)) w'
             = (Inr resp, w'')"
      and "StatusCode resp = 404"
  shows "FindDocument be os instanceID indexName entityName entityID w =
           (Return (Inl (Errorf_w ''secondary client: %w'' ErrDocumentNotFound)), w'')
         \<and> errors_Is (Errorf_w ''secondary client: %w'' ErrDocumentNotFound) ErrDocumentNotFound
         \<and> \<not> errors_Is (Errorf_w ''secondary client: %w'' ErrDocumentNotFound) ErrDocumentMismatch"
  using assms(1,2) findDocument_not_found [where be=be, OF assms(3,4)]
  by (simp add: FindDocument_def)

theorem FindDocument_secondary_not_found_witness:
  "FindDocument (clusters_Do match_all) with_secondary ''acme'' ''idx'' ''person'' ''p1''
     (two_clusters (holding ''idx'' ''acme-person-p1'' [(''name'', JStr ''A'')]) empty_cluster)
   = (Return (Inl (Errorf_w ''secondary client: %w'' ErrDocumentNotFound)),
      two_clusters (holding ''idx'' ''acme-person-p1'' [(''name'', JStr ''A'')]) empty_cluster)"
proof -
  let ?p = "holding ''idx'' ''acme-person-p1'' [(''name'', JStr ''A'')]"
  let ?w = "two_clusters ?p empty_cluster"
  let ?resp = "\<lparr>StatusCode = 404, Body = Some (JObj [(''_index'', JStr ''idx''),
                  (''_id'', JStr ''acme-person-p1''), (''found'', JBool False)])\<rparr>"
  have p: "?w(PrimaryEndpoint := ?p) = ?w" and s: "?w(SecondaryEndpoint := empty_cluster) = ?w"
    by (auto simp: two_clusters_def fun_eq_iff split: client.splits)
  have a: "findDocument (clusters_Do match_all) (primaryClient with_secondary) ''idx''
             (GenerateDocumentID ''acme'' ''person'' ''p1'') ?w = (Inr [(''name'', JStr ''A'')], ?w)"
    using p by (simp add: find_defs cluster_defs)
  have b: "secondaryClient with_secondary = Some SecondaryEndpoint"
    by (simp add: with_secondary_def)
  have c: "clusters_Do match_all SecondaryEndpoint
             (GetRequest ''idx'' (GenerateDocumentID ''acme'' ''person'' ''p1'')) ?w = (Inr ?resp, ?w)"
    using s by (simp add: cluster_defs GenerateDocumentID_def)
  have d: "StatusCode ?resp = 404" by simp
  show ?thesis
    using FindDocument_secondary_not_found
            [where be="clusters_Do match_all" and os=with_secondary and instanceID="''acme''"
               and entityName="''person''" and entityID="''p1''" and indexName="''idx''",
             OF a b c d]
    by simp
qed

lemma FindDocument_compared_unequal:
  assumes "findDocument be (primaryClient os) indexName
             (GenerateDocumentID instanceID entityName entityID) w = (Inr pryDoc, w')"
      and "secondaryClient os = Some secondary"
      and "findDocument be secondary indexName
             (GenerateDocumentID instanceID entityName entityID) w' = (Inr secDoc, w'')"
      and "compareDocuments pryDoc secDoc = Return False"
  shows "FindDocument be os instanceID indexName entityName entityID w =
           (Return (Inl (Errorf_q_w ''documents mismatch for id %q: %w'' entityID
                           ErrDocumentMismatch)), w'')"
  using assms by (simp add: FindDocument_def)

text \<open>
  C1 (the code at the failing input). Both clusters are reachable and hold a document
  under the key; the primary's has \<^verbatim>\<open>tags\<close> \<^verbatim>\<open>["a"]\<close>, the secondary's \<^verbatim>\<open>["b"]\<close>. Both
  lookups succeed, the documents differ, and \<^verbatim>\<open>FindDocument\<close> panics in the
  comparison in place of returning \<^verbatim>\<open>ErrDocumentMismatch\<close>.
\<close>

theorem FindDocument_diverged_lists_panic:
  "fst (FindDocument (clusters_Do match_all) with_secondary ''acme'' ''idx'' ''person'' ''p1''
     (two_clusters (holding ''idx'' ''acme-person-p1'' [(''tags'', JArr [JStr ''a''])])
                   (holding ''idx'' ''acme-person-p1'' [(''tags'', JArr [JStr ''b''])])))
   = Panic ''runtime error: comparing uncomparable type []interface {}''"
  by (simp add: find_defs cluster_defs)

section \<open>Comparing two documents\<close>

text \<open>
  C7 (the code at the failing input). Two documents with one field \<^verbatim>\<open>tags\<close>, each
  holding the list \<^verbatim>\<open>["a"]\<close>: the lengths agree, the key is found, and
  \<^verbatim>\<open>value1 != value2\<close> compares two values of the type \<^verbatim>\<open>[]interface{}\<close>, which
  panics. \<^verbatim>\<open>compareDocuments\<close> does not return.
\<close>

theorem compareDocuments_equal_lists_panic:
  "compareDocuments [(''tags'', JArr [JStr ''a''])] [(''tags'', JArr [JStr ''a''])]
     = Panic ''runtime error: comparing uncomparable type []interface {}''"
  by (simp add: compareDocuments_def)

text \<open>
  Where every value of the first document is null, a boolean, a number or a string, the
  comparison returns, and it returns true exactly when the documents have the same
  number of fields and the second holds every field of the first with the same value.
\<close>

lemma interface_ne_scalar: "scalar v \<Longrightarrow> interface_ne v w = Return (v \<noteq> w)"
  by (cases v; cases w) (simp_all add: scalar_def)

lemma compareDocuments_range_scalar:
  "(\<forall>(k, v) \<in> set doc1. scalar v) \<Longrightarrow>
   compareDocuments_range doc1 doc2 = Return (\<forall>(k, v) \<in> set doc1. map_of doc2 k = Some v)"
proof (induction doc1)
  case Nil
  then show ?case by simp
next
  case (Cons kv doc1)
  obtain k v where kv: "kv = (k, v)" by (cases kv)
  with Cons.prems have sc: "scalar v" by simp
  from Cons have ih: "compareDocuments_range doc1 doc2
      = Return (\<forall>(k, v) \<in> set doc1. map_of doc2 k = Some v)" by simp
  show ?case
    by (cases "map_of doc2 k") (auto simp: kv ih interface_ne_scalar [OF sc] bool.case_eq_if)
qed

lemma compareDocuments_scalar:
  "(\<forall>(k, v) \<in> set doc1. scalar v) \<Longrightarrow>
   compareDocuments doc1 doc2 =
     Return (length doc1 = length doc2 \<and> (\<forall>(k, v) \<in> set doc1. map_of doc2 k = Some v))"
  by (simp add: compareDocuments_def compareDocuments_range_scalar)

section \<open>Writing and reading back\<close>






section \<open>Search\<close>

lemma decode_hit_list_hit_json:
  "decode_hit_list (map hit_json hits) = Inr (map snd hits)"
  by (induction hits) (simp_all add: decode_hit_def hit_json_def decode_source_member_def)

lemma foldl_append_single: "foldl (\<lambda>documents hit. documents @ [hit]) acc hits = acc @ hits"
  by (induction hits arbitrary: acc) simp_all

lemma term_filter_constructSearchQuery:
  "term_filter_ok (constructSearchQuery instanceID query) d
     = (map_of d ''instance_id'' = Some (JStr instanceID))"
  by (simp add: term_filter_ok_def constructSearchQuery_def)

lemma Search_cluster:
  assumes "Search (clusters_Do m) os instanceID query w = (Inr docs, w')"
  shows "docs = map snd (search_hits m (constructSearchQuery instanceID query) (w (primaryClient os)))"
  using assms
  by (auto simp: Search_def json_Marshal_def executeReadRequest_def clusters_Do_def cluster_Do_def
        extractDocumentsFromSearchResponse_def decodeResponse_def IsError_def decode_Hits_def
        decode_inner_hits_def decode_hit_list_hit_json foldl_append_single Let_def
      split: if_splits)

text \<open>
  C4. Over every backend, a call of \<^verbatim>\<open>Search\<close> sends exactly one request, through the
  primary client, and its body is the query built from the instance id and the query
  text; nothing goes through the secondary. Whatever the query text, the \<^verbatim>\<open>filter\<close> of
  that body is the \<^verbatim>\<open>term\<close> clause that sets \<^verbatim>\<open>instance_id\<close> to the given instance id.
  On the reference clusters, which apply the clause, every document \<^verbatim>\<open>Search\<close> returns
  has that instance id in its field \<^verbatim>\<open>instance_id\<close>.
\<close>

theorem Search_primary_only_tenant_filter:
  "snd (snd (Search (logged be) os instanceID query (w, tr)))
     = tr @ [(primaryClient os, SearchRequest (constructSearchQuery instanceID query))]
   \<and> lookup_path [''query'', ''bool'', ''filter''] (constructSearchQuery instanceID query)
       = Some (JObj [(''term'', JObj [(''instance_id'', JStr instanceID)])])
   \<and> (Search (clusters_Do m) os' instanceID query cw = (Inr docs, cw') \<longrightarrow>
        (\<forall>d \<in> set docs. map_of d ''instance_id'' = Some (JStr instanceID)))"
proof (intro conjI impI)
  show "snd (snd (Search (logged be) os instanceID query (w, tr)))
     = tr @ [(primaryClient os, SearchRequest (constructSearchQuery instanceID query))]"
    by (simp add: Search_def json_Marshal_def executeReadRequest_logged Let_def
          split: prod.splits sum.splits)
next
  show "lookup_path [''query'', ''bool'', ''filter''] (constructSearchQuery instanceID query)
       = Some (JObj [(''term'', JObj [(''instance_id'', JStr instanceID)])])"
    by (simp add: constructSearchQuery_def)
next
  assume "Search (clusters_Do m) os' instanceID query cw = (Inr docs, cw')"
  from Search_cluster [OF this]
  show "\<forall>d \<in> set docs. map_of d ''instance_id'' = Some (JStr instanceID)"
    by (auto simp: search_hits_def term_filter_constructSearchQuery)
qed

theorem Search_primary_only_tenant_filter_witness:
  "Search (clusters_Do match_all) with_secondary ''acme'' \<lparr>Value = ''name:A''\<rparr>
     (two_clusters
        \<lparr>reachable = True, indices = [(''idx'',
           [(''acme-person-p1'', [(''name'', JStr ''A''), (''instance_id'', JStr ''acme'')]),
            (''other-person-p1'', [(''name'', JStr ''A''), (''instance_id'', JStr ''other'')])])]\<rparr>
        unreachable_cluster)
   = (Inr [[(''name'', JStr ''A''), (''instance_id'', JStr ''acme'')]],
      two_clusters
        \<lparr>reachable = True, indices = [(''idx'',
           [(''acme-person-p1'', [(''name'', JStr ''A''), (''instance_id'', JStr ''acme'')]),
            (''other-person-p1'', [(''name'', JStr ''A''), (''instance_id'', JStr ''other'')])])]\<rparr>
        unreachable_cluster)
   \<and> map_of [(''name'', JStr ''A''), (''instance_id'', JStr ''acme'')] ''instance_id''
       = Some (JStr ''acme'')"
proof -
  let ?p = "\<lparr>reachable = True, indices = [(''idx'',
           [(''acme-person-p1'', [(''name'', JStr ''A''), (''instance_id'', JStr ''acme'')]),
            (''other-person-p1'', [(''name'', JStr ''A''), (''instance_id'', JStr ''other'')])])]\<rparr>"
  let ?w = "two_clusters ?p unreachable_cluster"
  have same: "?w(PrimaryEndpoint := ?p) = ?w"
    by (auto simp: two_clusters_def fun_eq_iff split: client.splits)
  have a: "Search (clusters_Do match_all) with_secondary ''acme'' \<lparr>Value = ''name:A''\<rparr> ?w
             = (Inr [[(''name'', JStr ''A''), (''instance_id'', JStr ''acme'')]], ?w)"
    using same by (simp add: search_defs cluster_defs)
  note T = Search_primary_only_tenant_filter
              [where m=match_all and os'=with_secondary and instanceID="''acme''"
                 and query="\<lparr>Value = ''name:A''\<rparr>" and cw="?w" and cw'="?w"
                 and docs="[[(''name'', JStr ''A''), (''instance_id'', JStr ''acme'')]]"]
  from T [THEN conjunct2, THEN conjunct2, THEN mp, OF a]
  have "\<forall>d \<in> set [[(''name'', JStr ''A''), (''instance_id'', JStr ''acme'')]].
          map_of d ''instance_id'' = Some (JStr ''acme'')" .
  then have "map_of [(''name'', JStr ''A''), (''instance_id'', JStr ''acme'')] ''instance_id''
               = Some (JStr ''acme'')"
    by (rule bspec) simp
  with a show ?thesis by blast
qed

end
